theory Spec2Isabelle
  imports Complex_Main
begin

section \<open>Hands of Rhythm: the gesture-driven particle engine\<close>

text \<open>
  A shallow embedding of \<^verbatim>\<open>JazzCanvas\<close> (hand signal mapper, frame orchestrator, the
  three particle systems) and of \<^verbatim>\<open>HandTracker\<close>.

  Numbers: a JavaScript number is modelled as a \<^typ>\<open>real\<close>. The embedding therefore
  states the arithmetic of the program exactly and does not model the rounding of IEEE
  doubles, nor the values NaN and Infinity.

  Randomness and noise: \<^verbatim>\<open>p.random\<close>, \<^verbatim>\<open>p5.Vector.random2D\<close> and \<^verbatim>\<open>p.noise\<close> are inputs
  of the model; every function that draws from them takes the drawn values as arguments.
\<close>

subsection \<open>Library primitives of p5.js used by the sketch\<close>

text \<open>
  \<^verbatim>\<open>p.map(n, start1, stop1, start2, stop2)\<close> without the optional bounds flag: linear
  re-mapping, not clamped to the target range.
\<close>

definition p5_map :: "real \<Rightarrow> real \<Rightarrow> real \<Rightarrow> real \<Rightarrow> real \<Rightarrow> real" where
  "p5_map n start1 stop1 start2 stop2 =
     (n - start1) / (stop1 - start1) * (stop2 - start2) + start2"

text \<open>\<^verbatim>\<open>p.random(lo, hi)\<close>: the underlying draw \<open>u\<close> lies in \<open>[0, 1)\<close>.\<close>

definition p5_random :: "real \<Rightarrow> real \<Rightarrow> real \<Rightarrow> real" where
  "p5_random u lo hi =
     (if lo > hi then u * (lo - hi) + hi else u * (hi - lo) + lo)"

text \<open>\<^verbatim>\<open>p.random(hi)\<close>, the one-argument form.\<close>

definition p5_random1 :: "real \<Rightarrow> real \<Rightarrow> real" where
  "p5_random1 u hi = u * hi"

text \<open>A draw of the generator is a number in \<open>[0, 1)\<close>.\<close>

definition unit_draw :: "real \<Rightarrow> bool" where
  "unit_draw u = (0 \<le> u \<and> u < 1)"

text \<open>\<^verbatim>\<open>p.lerp(start, stop, amt)\<close>.\<close>

definition p5_lerp :: "real \<Rightarrow> real \<Rightarrow> real \<Rightarrow> real" where
  "p5_lerp start stop amt = amt * (stop - start) + start"

text \<open>The JavaScript remainder \<^verbatim>\<open>x % 1.0\<close>: the result has the sign of \<open>x\<close>.\<close>

definition js_mod1 :: "real \<Rightarrow> real" where
  "js_mod1 a = (if a \<ge> 0 then a - of_int \<lfloor>a\<rfloor> else a - of_int \<lceil>a\<rceil>)"

text \<open>\<^verbatim>\<open>p.dist(x1, y1, x2, y2)\<close>.\<close>

definition p5_dist :: "real \<Rightarrow> real \<Rightarrow> real \<Rightarrow> real \<Rightarrow> real" where
  "p5_dist x1 y1 x2 y2 = sqrt ((x2 - x1)\<^sup>2 + (y2 - y1)\<^sup>2)"

text \<open>\<^verbatim>\<open>p5.Vector\<close>, restricted to the two components the sketch uses.\<close>

record Vector =
  vx :: real
  vy :: real

definition createVector :: "real \<Rightarrow> real \<Rightarrow> Vector" where
  "createVector a b = \<lparr>vx = a, vy = b\<rparr>"

definition vadd :: "Vector \<Rightarrow> Vector \<Rightarrow> Vector" where
  "vadd a b = \<lparr>vx = vx a + vx b, vy = vy a + vy b\<rparr>"

definition vsub :: "Vector \<Rightarrow> Vector \<Rightarrow> Vector" where
  "vsub a b = \<lparr>vx = vx a - vx b, vy = vy a - vy b\<rparr>"

definition vmult :: "Vector \<Rightarrow> real \<Rightarrow> Vector" where
  "vmult a k = \<lparr>vx = vx a * k, vy = vy a * k\<rparr>"

definition magSq :: "Vector \<Rightarrow> real" where
  "magSq a = vx a * vx a + vy a * vy a"

definition mag :: "Vector \<Rightarrow> real" where
  "mag a = sqrt (magSq a)"

text \<open>\<^verbatim>\<open>normalize\<close> leaves the zero vector alone.\<close>

definition normalize :: "Vector \<Rightarrow> Vector" where
  "normalize a = (let len = mag a in if len \<noteq> 0 then vmult a (1 / len) else a)"

text \<open>
  \<^verbatim>\<open>limit(max)\<close>: rescale to length \<open>max\<close> when the squared length exceeds \<open>max\<^sup>2\<close>; the
  library's \<^verbatim>\<open>div(Math.sqrt(mSq))\<close> is the multiplication by the inverse.
\<close>

definition limit :: "Vector \<Rightarrow> real \<Rightarrow> Vector" where
  "limit a mx =
     (let mSq = magSq a
      in if mSq > mx * mx then vmult (vmult a (1 / sqrt mSq)) mx else a)"

definition fromAngle :: "real \<Rightarrow> Vector" where
  "fromAngle angle = \<lparr>vx = cos angle, vy = sin angle\<rparr>"

subsection \<open>Types of the application\<close>

datatype GameGenre = JAZZ | ELECTRONIC | FUNK

record HandCoordinates =
  hx :: real
  hy :: real

record HandState =
  left :: "HandCoordinates option"
  right :: "HandCoordinates option"
  isLeftPinching :: bool
  isRightPinching :: bool
  leftSqueeze :: real
  rightSqueeze :: real

subsection \<open>Frame orchestrator: beat flash\<close>

text \<open>The per-genre alpha of the trail fill, as \<^verbatim>\<open>p.draw\<close> computes it.\<close>

definition bgAlpha :: "GameGenre \<Rightarrow> real" where
  "bgAlpha genre =
     (let a0 = 10;
          a1 = (if genre = JAZZ then 12 else a0);
          a2 = (if genre = FUNK then 20 else a1);
          a3 = (if genre = ELECTRONIC then 25 else a2)
      in a3)"

datatype fill_cmd =
    FillHSBA real real real real
  | FillGrayA real real

text \<open>
  The flash branch of \<^verbatim>\<open>p.draw\<close>: returns the fill that is issued and the new value of
  \<^verbatim>\<open>beatFlashRef.current\<close>.
\<close>

definition drawFlash :: "GameGenre \<Rightarrow> real \<Rightarrow> fill_cmd \<times> real" where
  "drawFlash genre beatFlash =
     (if beatFlash > 0.01
      then (FillHSBA 0 0 (20 * beatFlash) (bgAlpha genre + 10), beatFlash * 0.9)
      else (FillGrayA 0 (bgAlpha genre), beatFlash))"

text \<open>The callback registered with \<^verbatim>\<open>audioEngine.onBeat\<close>.\<close>

definition onBeat :: "real \<Rightarrow> real" where
  "onBeat beatFlash = 1.0"

text \<open>\<open>n\<close> consecutive ticks of \<^verbatim>\<open>p.draw\<close> with no beat event in between.\<close>

fun flashAfter :: "GameGenre \<Rightarrow> nat \<Rightarrow> real \<Rightarrow> real" where
  "flashAfter genre 0 beatFlash = beatFlash"
| "flashAfter genre (Suc n) beatFlash = flashAfter genre n (snd (drawFlash genre beatFlash))"


subsection \<open>Hand signal mapper\<close>

text \<open>
  A landmark point; the fields are \<^verbatim>\<open>x\<close> and \<^verbatim>\<open>y\<close> in the source. A landmark list that is
  \<^verbatim>\<open>null\<close> or \<^verbatim>\<open>undefined\<close> is \<open>None\<close>.
\<close>

record Landmark =
  lx :: real
  ly :: real

datatype js_error = TypeError

definition tips :: "nat list" where
  "tips = [8, 12, 16, 20]"

definition tipDistance :: "Landmark \<Rightarrow> Landmark \<Rightarrow> real" where
  "tipDistance wrist tip = sqrt ((lx tip - lx wrist)\<^sup>2 + (ly tip - ly wrist)\<^sup>2)"

definition getHandOpenness :: "Landmark list option \<Rightarrow> real" where
  "getHandOpenness landmarks =
     (case landmarks of
        None \<Rightarrow> 0
      | Some lms \<Rightarrow>
          if length lms < 21 then 0
          else
            let wrist = lms ! 0;
                totalDist = foldl (\<lambda>total idx. total + tipDistance wrist (lms ! idx)) 0 tips;
                avgDist = totalDist / 4;
                openness = (avgDist - 0.15) / 0.25
            in max 0 (min 1 openness))"

text \<open>The squeeze \<^verbatim>\<open>onHandResults\<close> derives from the openness of a hand.\<close>

definition squeezeOf :: "Landmark list option \<Rightarrow> real" where
  "squeezeOf landmarks = (let openness = getHandOpenness landmarks in 1.0 - openness)"





definition noHands :: HandState where
  "noHands = \<lparr>left = None, right = None, isLeftPinching = False, isRightPinching = False,
              leftSqueeze = 0, rightSqueeze = 0\<rparr>"


text \<open>
  The words of the specification, for comparison: the mean Euclidean distance from the
  wrist to the four fingertips, and the squeeze as a function of that distance.
\<close>

definition meanTipDistance_spec :: "Landmark list \<Rightarrow> real" where
  "meanTipDistance_spec lms =
     (tipDistance (lms ! 0) (lms ! 8) + tipDistance (lms ! 0) (lms ! 12) +
      tipDistance (lms ! 0) (lms ! 16) + tipDistance (lms ! 0) (lms ! 20)) / 4"

definition clamp_spec :: "real \<Rightarrow> real \<Rightarrow> real \<Rightarrow> real" where
  "clamp_spec v lo hi = (if v < lo then lo else if v > hi then hi else v)"

definition squeeze_spec :: "real \<Rightarrow> real" where
  "squeeze_spec d = 1 - clamp_spec ((d - 0.15) / 0.25) 0 1"

subsection \<open>Frame orchestrator: note triggers\<close>

text \<open>A note trigger; the fields are \<^verbatim>\<open>x\<close>, \<^verbatim>\<open>y\<close> and \<^verbatim>\<open>life\<close> in the source.\<close>

record NoteTrigger =
  tx :: real
  ty :: real
  life :: real

text \<open>The callback registered with \<^verbatim>\<open>audioEngine.onNoteTriggered\<close>.\<close>

definition onNoteTriggered :: "real \<Rightarrow> real \<Rightarrow> NoteTrigger list \<Rightarrow> NoteTrigger list" where
  "onNoteTriggered a b triggers = triggers @ [\<lparr>tx = a, ty = b, life = 1.0\<rparr>]"

text \<open>
  What the loop draws for one trigger: \<^verbatim>\<open>p.stroke(0, 0, 100, t.life * 100)\<close> followed by
  \<^verbatim>\<open>p.circle(t.x * p.width, t.y * p.height, (1.0 - t.life) * 200)\<close>. The third argument
  of p5's \<^verbatim>\<open>circle(x, y, d)\<close> is the diameter of the circle.
\<close>

record ring_cmd =
  ring_alpha :: real
  ring_cx :: real
  ring_cy :: real
  ring_d :: real

definition ring_radius :: "ring_cmd \<Rightarrow> real" where
  "ring_radius c = ring_d c / 2"

definition drawRing :: "real \<Rightarrow> real \<Rightarrow> NoteTrigger \<Rightarrow> ring_cmd" where
  "drawRing width height t =
     \<lparr>ring_alpha = life t * 100, ring_cx = tx t * width, ring_cy = ty t * height,
      ring_d = (1.0 - life t) * 200\<rparr>"

text \<open>
  The loop \<^verbatim>\<open>for (let i = length - 1; i >= 0; i--)\<close>. The first argument \<open>Suc i\<close> stands for
  the loop variable \<open>i\<close>; \<^verbatim>\<open>splice(i, 1)\<close> removes the element at \<open>i\<close>.
\<close>

fun triggerLoop :: "real \<Rightarrow> real \<Rightarrow> nat \<Rightarrow> NoteTrigger list \<Rightarrow> ring_cmd list \<Rightarrow> NoteTrigger list \<times> ring_cmd list" where
  "triggerLoop width height 0 triggers out = (triggers, out)"
| "triggerLoop width height (Suc i) triggers out =
     (let t = triggers ! i;
          out' = out @ [drawRing width height t];
          t' = t\<lparr>life := life t - 0.05\<rparr>;
          triggers' = (if life t' \<le> 0 then take i triggers @ drop (Suc i) triggers
                       else triggers[i := t'])
      in triggerLoop width height i triggers' out')"

definition drawNoteTriggers :: "real \<Rightarrow> real \<Rightarrow> NoteTrigger list \<Rightarrow> NoteTrigger list \<times> ring_cmd list" where
  "drawNoteTriggers width height triggers = triggerLoop width height (length triggers) triggers []"

text \<open>
  A run of ticks. Each tick comes with the notes that arrived since the previous one
  (their callbacks have appended to the list), then \<^verbatim>\<open>p.draw\<close> runs its loop.
\<close>

definition arrive :: "(real \<times> real) list \<Rightarrow> NoteTrigger list \<Rightarrow> NoteTrigger list" where
  "arrive arrived triggers =
     foldl (\<lambda>ts n. onNoteTriggered (fst n) (snd n) ts) triggers arrived"

fun triggerRun :: "real \<Rightarrow> real \<Rightarrow> (real \<times> real) list list \<Rightarrow> NoteTrigger list \<Rightarrow> NoteTrigger list" where
  "triggerRun width height [] triggers = triggers"
| "triggerRun width height (arrived # later) triggers =
     triggerRun width height later
       (fst (drawNoteTriggers width height (arrive arrived triggers)))"

text \<open>\<open>k\<close> ticks in which no note arrives.\<close>

definition quiet :: "nat \<Rightarrow> (real \<times> real) list list" where
  "quiet k = replicate k []"

subsection \<open>Liquid particles (genre JAZZ)\<close>

record LiquidParticle =
  pos :: Vector
  vel :: Vector
  acc :: Vector
  prevPos :: Vector
  maxSpeed :: real

text \<open>
  The values one call of \<^verbatim>\<open>update\<close> draws from outside: the value of \<^verbatim>\<open>p.noise\<close> at the
  particle, and the unit vectors \<^verbatim>\<open>p5.Vector.random2D()\<close> returns in the two calls of
  \<^verbatim>\<open>interact\<close>.
\<close>

record liquid_draws =
  noise :: real
  turbLeft :: Vector
  turbRight :: Vector

definition TWO_PI :: real where
  "TWO_PI = 2 * pi"

text \<open>
  The drag force of \<^verbatim>\<open>interact\<close>: the copy of the hand velocity, normalised and scaled by
  \<^verbatim>\<open>p.map(d, 0, 300, 4, 0) * (velMag * 0.05)\<close>.
\<close>

definition dragScale :: "real \<Rightarrow> real \<Rightarrow> real" where
  "dragScale d velMag = p5_map d 0 300 4 0 * (velMag * 0.05)"

definition dragForce :: "real \<Rightarrow> Vector \<Rightarrow> Vector" where
  "dragForce d hVel = vmult (normalize hVel) (dragScale d (mag hVel))"

definition interact :: "real \<Rightarrow> real \<Rightarrow> HandCoordinates option \<Rightarrow> Vector \<Rightarrow> Vector \<Rightarrow> LiquidParticle \<Rightarrow> LiquidParticle" where
  "interact width height hand hVel turbDir pt =
     (case hand of
        None \<Rightarrow> pt
      | Some hc \<Rightarrow>
          let handPos = createVector (hx hc * width) (hy hc * height);
              dir = vsub handPos (pos pt);
              d = mag dir
          in if d < 400 then
               let attractionStr = p5_map d 0 400 1.5 0;
                   pt1 = pt\<lparr>acc := vadd (acc pt) (vmult (normalize dir) attractionStr)\<rparr>;
                   velMag = mag hVel
               in if velMag > 5 then
                    let pt2 = pt1\<lparr>acc := vadd (acc pt1) (dragForce d hVel)\<rparr>;
                        turb = vmult turbDir 1.5
                    in pt2\<lparr>acc := vadd (acc pt2) turb\<rparr>
                  else pt1
             else pt)"

text \<open>Steps 1 to 3 of \<^verbatim>\<open>update\<close>: flow force, hand interaction, integration.\<close>

definition integrate :: "real \<Rightarrow> real \<Rightarrow> liquid_draws \<Rightarrow> HandState \<Rightarrow> Vector \<times> Vector \<Rightarrow> LiquidParticle \<Rightarrow> LiquidParticle" where
  "integrate width height draws hands handVels pt =
     (let pt0 = pt\<lparr>prevPos := pos pt\<rparr>;
          angle = noise draws * TWO_PI * 4;
          flowForce = vmult (fromAngle angle) 0.5;
          pt1 = pt0\<lparr>acc := vadd (acc pt0) flowForce\<rparr>;
          pt2 = interact width height (left hands) (fst handVels) (turbLeft draws) pt1;
          pt3 = interact width height (right hands) (snd handVels) (turbRight draws) pt2;
          pt4 = pt3\<lparr>vel := vadd (vel pt3) (acc pt3)\<rparr>;
          pt5 = pt4\<lparr>vel := limit (vel pt4) (maxSpeed pt4)\<rparr>;
          pt6 = pt5\<lparr>vel := vmult (vel pt5) 0.94\<rparr>;
          pt7 = pt6\<lparr>pos := vadd (pos pt6) (vel pt6)\<rparr>
      in pt7\<lparr>acc := vmult (acc pt7) 0\<rparr>)"

text \<open>Step 4 of \<^verbatim>\<open>update\<close>: the four tests, in the order of the source.\<close>

definition wrapAround :: "real \<Rightarrow> real \<Rightarrow> LiquidParticle \<Rightarrow> LiquidParticle" where
  "wrapAround width height pt =
     (let pt1 = (if vx (pos pt) > width
                 then pt\<lparr>pos := (pos pt)\<lparr>vx := 0\<rparr>, prevPos := (prevPos pt)\<lparr>vx := 0\<rparr>\<rparr>
                 else pt);
          pt2 = (if vx (pos pt1) < 0
                 then pt1\<lparr>pos := (pos pt1)\<lparr>vx := width\<rparr>, prevPos := (prevPos pt1)\<lparr>vx := width\<rparr>\<rparr>
                 else pt1);
          pt3 = (if vy (pos pt2) > height
                 then pt2\<lparr>pos := (pos pt2)\<lparr>vy := 0\<rparr>, prevPos := (prevPos pt2)\<lparr>vy := 0\<rparr>\<rparr>
                 else pt2);
          pt4 = (if vy (pos pt3) < 0
                 then pt3\<lparr>pos := (pos pt3)\<lparr>vy := height\<rparr>, prevPos := (prevPos pt3)\<lparr>vy := height\<rparr>\<rparr>
                 else pt3)
      in pt4)"

definition liquidUpdate :: "real \<Rightarrow> real \<Rightarrow> liquid_draws \<Rightarrow> HandState \<Rightarrow> Vector \<times> Vector \<Rightarrow> LiquidParticle \<Rightarrow> LiquidParticle" where
  "liquidUpdate width height draws hands handVels pt =
     wrapAround width height (integrate width height draws hands handVels pt)"

text \<open>The segment \<^verbatim>\<open>show\<close> draws: from the previous position to the position.\<close>

definition streak :: "LiquidParticle \<Rightarrow> Vector" where
  "streak pt = vsub (pos pt) (prevPos pt)"

text \<open>
  Consecutive ticks with no hand detected: the hand state is \<^const>\<open>noHands\<close> and both hand
  velocities are the zero vector; each tick brings its own draws.
\<close>

fun liquidRun :: "real \<Rightarrow> real \<Rightarrow> liquid_draws list \<Rightarrow> LiquidParticle \<Rightarrow> LiquidParticle" where
  "liquidRun width height [] pt = pt"
| "liquidRun width height (draws # later) pt =
     liquidRun width height later
       (liquidUpdate width height draws noHands (createVector 0 0, createVector 0 0) pt)"

definition withinClosed :: "real \<Rightarrow> real \<Rightarrow> LiquidParticle \<Rightarrow> bool" where
  "withinClosed width height pt =
     (0 \<le> vx (pos pt) \<and> vx (pos pt) \<le> width \<and> 0 \<le> vy (pos pt) \<and> vy (pos pt) \<le> height)"

definition withinHalfOpen :: "real \<Rightarrow> real \<Rightarrow> LiquidParticle \<Rightarrow> bool" where
  "withinHalfOpen width height pt =
     (0 \<le> vx (pos pt) \<and> vx (pos pt) < width \<and> 0 \<le> vy (pos pt) \<and> vy (pos pt) < height)"

subsection \<open>Vortex particles (genre FUNK)\<close>

text \<open>
  The fields \<^verbatim>\<open>x\<close>, \<^verbatim>\<open>y\<close>, \<^verbatim>\<open>z\<close> of the source are \<open>px\<close>, \<open>py\<close>, \<open>pz\<close>. The declared
  fields \<^verbatim>\<open>angle\<close> and \<^verbatim>\<open>radius\<close> are never assigned and are left out.
\<close>

record VortexParticle =
  px :: real
  py :: real
  pz :: real
  speed :: real
  oX :: real
  oY :: real

text \<open>The six draws of \<^verbatim>\<open>respawn\<close>, in the order in which it makes them.\<close>

record vortex_draws =
  u_x :: real
  u_y :: real
  u_z :: real
  u_oX :: real
  u_oY :: real
  u_speed :: real

definition unit_draws :: "vortex_draws \<Rightarrow> bool" where
  "unit_draws u =
     (unit_draw (u_x u) \<and> unit_draw (u_y u) \<and> unit_draw (u_z u) \<and>
      unit_draw (u_oX u) \<and> unit_draw (u_oY u) \<and> unit_draw (u_speed u))"

definition respawn :: "real \<Rightarrow> real \<Rightarrow> vortex_draws \<Rightarrow> VortexParticle \<Rightarrow> VortexParticle" where
  "respawn width height u pt =
     pt\<lparr>px := p5_random (u_x u) (- width) width,
        py := p5_random (u_y u) (- height) height,
        pz := p5_random (u_z u) 1000 2000,
        oX := p5_random (u_oX u) (- 1) 1,
        oY := p5_random (u_oY u) (- 1) 1,
        speed := p5_random (u_speed u) 10 30\<rparr>"

text \<open>
  \<^verbatim>\<open>update\<close>: the particle and the shared accumulator \<^verbatim>\<open>vortexAngle\<close> are passed and
  returned. \<open>beatFlash\<close> is the value of \<^verbatim>\<open>beatFlashRef.current\<close> at the call.
\<close>

definition vortexUpdate :: "real \<Rightarrow> real \<Rightarrow> real \<Rightarrow> HandState \<Rightarrow> vortex_draws \<Rightarrow> VortexParticle \<times> real \<Rightarrow> VortexParticle \<times> real" where
  "vortexUpdate width height beatFlash hands u st =
     (let pt = fst st;
          vortexAngle = snd st;
          pt1 = pt\<lparr>pz := pz pt - (speed pt + beatFlash * 50)\<rparr>;
          twist = (if right hands \<noteq> None \<or> left hands \<noteq> None then 0.05 else 0.02);
          vortexAngle' = vortexAngle + twist * 0.01
      in if pz pt1 < 1 then (respawn width height u pt1, vortexAngle')
         else (pt1, vortexAngle'))"

subsection \<open>Neural grid (genre ELECTRONIC)\<close>

text \<open>The field \<^verbatim>\<open>id\<close> of the source is \<open>node_id\<close>; \<^verbatim>\<open>pos\<close> and \<^verbatim>\<open>vel\<close> are \<open>npos\<close>, \<open>nvel\<close>.\<close>

record NeuralNode =
  npos :: Vector
  nvel :: Vector
  baseSize :: real
  node_id :: real

definition maxDist :: real where
  "maxDist = 150"

text \<open>
  What the body of the inner loop draws for the pair \<open>(i, j)\<close>: the line with its stroke
  alpha, then the packet dot. The commands carry the indices of the pair.
\<close>

datatype grid_cmd =
    ConnLine nat nat real Vector Vector
  | PacketDot nat nat real real

definition nodeDist :: "NeuralNode \<Rightarrow> NeuralNode \<Rightarrow> real" where
  "nodeDist n1 n2 = p5_dist (vx (npos n1)) (vy (npos n1)) (vx (npos n2)) (vy (npos n2))"

definition connAlpha :: "real \<Rightarrow> real" where
  "connAlpha d = p5_map d 0 maxDist 80 0"

definition connectPair :: "real \<Rightarrow> NeuralNode list \<Rightarrow> nat \<Rightarrow> nat \<Rightarrow> grid_cmd list" where
  "connectPair frameCount nodes i j =
     (let n1 = nodes ! i;
          n2 = nodes ! j;
          d = nodeDist n1 n2
      in if d < maxDist then
           let alpha = connAlpha d;
               packetPos = js_mod1 (frameCount * 0.05 + node_id n1 * 10 + node_id n2 * 10);
               pkx = p5_lerp (vx (npos n1)) (vx (npos n2)) packetPos;
               pky = p5_lerp (vy (npos n1)) (vy (npos n2)) packetPos
           in [ConnLine i j alpha (npos n1) (npos n2), PacketDot i j pkx pky]
         else [])"

text \<open>
  The two nested loops of \<^verbatim>\<open>drawNeuralGrid\<close>:
  \<^verbatim>\<open>for (i = 0; i < n; i++) for (j = i + 1; j < n; j++)\<close>. They run on the nodes as the
  first pass of \<^verbatim>\<open>drawNeuralGrid\<close> (move, bounce, jitter) has left them in this tick.
\<close>

definition drawConnections :: "real \<Rightarrow> NeuralNode list \<Rightarrow> grid_cmd list" where
  "drawConnections frameCount nodes =
     concat (map (\<lambda>i. concat (map (\<lambda>j. connectPair frameCount nodes i j)
                                   [Suc i ..< length nodes]))
                 [0 ..< length nodes])"

subsection \<open>The hand tracker\<close>

text \<open>
  The objects \<^verbatim>\<open>HandTracker\<close> holds are outside the repository; the model keeps of each
  the state that \<^verbatim>\<open>stop\<close> can change or observe:
  \<^item> a media track is live until \<^verbatim>\<open>track.stop()\<close> ends it;
  \<^item> the camera utility runs until its \<^verbatim>\<open>stop\<close> is called, and may lack that method;
  \<^item> \<^verbatim>\<open>hands.close()\<close> may throw, which \<^verbatim>\<open>stop\<close> catches and reports with
    \<^verbatim>\<open>console.warn\<close>.
  \<^verbatim>\<open>track.stop()\<close> and \<^verbatim>\<open>camera.stop()\<close> are taken not to throw.
\<close>

record CameraObj =
  camRunning :: bool
  camHasStop :: bool

record HandsObj =
  closeThrows :: bool

record VideoElement =
  srcObject :: "bool list option"

record HandTracker =
  hands :: "HandsObj option"
  camera :: "CameraObj option"
  videoElement :: "VideoElement option"
  isActive :: bool
  console :: "string list"

definition stopTracks :: "VideoElement option \<Rightarrow> VideoElement option" where
  "stopTracks ve =
     (case ve of
        None \<Rightarrow> None
      | Some v \<Rightarrow>
          (case srcObject v of
             None \<Rightarrow> Some v
           | Some tracks \<Rightarrow> Some (v\<lparr>srcObject := Some (map (\<lambda>live. False) tracks)\<rparr>)))"

definition stop :: "HandTracker \<Rightarrow> js_error + HandTracker" where
  "stop tr =
     (let tr1 = tr\<lparr>isActive := False\<rparr>;
          tr2 = (case camera tr1 of
                   None \<Rightarrow> tr1
                 | Some cam \<Rightarrow>
                     let tr1a = tr1\<lparr>videoElement := stopTracks (videoElement tr1)\<rparr>
                     in if camHasStop cam
                        then tr1a\<lparr>camera := Some (cam\<lparr>camRunning := False\<rparr>)\<rparr>
                        else tr1a);
          tr3 = (case hands tr2 of
                   None \<Rightarrow> tr2
                 | Some hs \<Rightarrow>
                     let tr2a = (if closeThrows hs
                                 then tr2\<lparr>console := console tr2 @ [''Error closing MediaPipe Hands:'']\<rparr>
                                 else tr2)
                     in tr2a\<lparr>hands := None\<rparr>)
      in Inr tr3)"

text \<open>
  The constructor, and \<^verbatim>\<open>start\<close> with the ways in which it can end: the tracker as the
  call leaves it, and the error when the call fails.
\<close>

definition newTracker :: "HandsObj \<Rightarrow> HandTracker" where
  "newTracker hs =
     \<lparr>hands = Some hs, camera = None, videoElement = None, isActive = False, console = []\<rparr>"

datatype start_outcome =
    CameraCtorThrows
  | CameraStartRejects CameraObj
  | CameraStarted CameraObj "bool list"

datatype start_error = CameraUnavailable

definition start :: "VideoElement \<Rightarrow> start_outcome \<Rightarrow> HandTracker \<Rightarrow> HandTracker \<times> start_error option" where
  "start ve outcome tr =
     (let tr1 = tr\<lparr>isActive := True, videoElement := Some ve\<rparr>
      in case outcome of
           CameraCtorThrows \<Rightarrow> (tr1, Some CameraUnavailable)
         | CameraStartRejects cam \<Rightarrow> (tr1\<lparr>camera := Some cam\<rparr>, Some CameraUnavailable)
         | CameraStarted cam tracks \<Rightarrow>
             (tr1\<lparr>camera := Some (cam\<lparr>camRunning := True\<rparr>),
                  videoElement := Some (ve\<lparr>srcObject := Some tracks\<rparr>)\<rparr>, None))"

subsection \<open>Auxiliary functions for the proofs\<close>

text \<open>One tick seen from a single trigger: it ages by \<open>0.05\<close> and is kept while its life is positive.\<close>

definition age :: "NoteTrigger \<Rightarrow> NoteTrigger" where
  "age t = t\<lparr>life := life t - 0.05\<rparr>"

definition survivors :: "NoteTrigger list \<Rightarrow> NoteTrigger list" where
  "survivors ts = filter (\<lambda>t. \<not> life t \<le> 0) (map age ts)"

section \<open>Properties\<close>

subsection \<open>Beat flash decay\<close>

lemma pow09_43: "(0.01::real) < 0.9 ^ 43"
  by (simp add: power_divide)

lemma pow09_44: "(0.9::real) ^ 44 < 0.01"
  by (simp add: power_divide)

lemma pow09_above: "n \<le> 43 \<Longrightarrow> (0.01::real) < 0.9 ^ n"
proof -
  assume "n \<le> 43"
  then have "(0.9::real) ^ 43 \<le> 0.9 ^ n"
    by (intro power_decreasing) simp_all
  with pow09_43 show ?thesis by linarith
qed

lemma flashAfter_low: "f \<le> 0.01 \<Longrightarrow> flashAfter g n f = f"
  by (induction n) (simp_all add: drawFlash_def)

lemma flashAfter_decay: "k + n \<le> 44 \<Longrightarrow> flashAfter g n (0.9 ^ k) = 0.9 ^ (k + n)"
proof (induction n arbitrary: k)
  case 0
  then show ?case by simp
next
  case (Suc n)
  then have "k \<le> 43" by simp
  then have "(0.01::real) < 0.9 ^ k" by (rule pow09_above)
  then have step: "snd (drawFlash g (0.9 ^ k)) = 0.9 ^ (Suc k)"
    by (simp add: drawFlash_def)
  have "flashAfter g (Suc n) (0.9 ^ k) = flashAfter g n (0.9 ^ (Suc k))"
    unfolding flashAfter.simps step ..
  also have "\<dots> = 0.9 ^ (Suc k + n)"
    using Suc.prems by (intro Suc.IH) simp
  finally show ?case by (simp only: add_Suc add_Suc_right)
qed

lemma flashAfter_closed: "flashAfter g n (onBeat f) = 0.9 ^ (min n 44)"
proof (cases "n \<le> 44")
  case True
  then show ?thesis
    using flashAfter_decay [of 0 n g] by (simp add: onBeat_def min_def)
next
  case False
  then obtain m where n: "n = 44 + m"
    by (metis add.commute le_add_diff_inverse2 nat_le_linear)
  have split: "flashAfter g (a + b) x = flashAfter g b (flashAfter g a x)" for a b x
    by (induction a arbitrary: x) simp_all
  have "flashAfter g 44 (onBeat f) = 0.9 ^ 44"
    using flashAfter_decay [of 0 44 g] by (simp add: onBeat_def)
  then have "flashAfter g n (onBeat f) = flashAfter g m (0.9 ^ 44)"
    by (simp add: n split)
  also have "\<dots> = 0.9 ^ 44"
    using pow09_44 by (intro flashAfter_low) simp
  finally show ?thesis using False by (simp add: min_def)
qed

text \<open>
  C2 (amended). Starting from the flash intensity \<open>1.0\<close> a beat event sets, with no further
  beat event, the flash after \<open>n\<close> ticks equals \<open>0.9 ^ n\<close> for every \<open>n \<le> 44\<close>; the tick
  multiplies the flash by \<open>0.9\<close> only while it exceeds \<open>0.01\<close>, so from tick 44 on it stays
  at \<open>0.9 ^ 44\<close>. It is above \<open>0.01\<close> after 43 ticks and below \<open>0.01\<close> after 44 ticks.
\<close>

theorem C2_beat_flash_decay:
  "flashAfter genre n (onBeat f) = 0.9 ^ (min n 44) \<and>
   flashAfter genre 44 (onBeat f) < 0.01 \<and>
   0.01 < flashAfter genre 43 (onBeat f)"
  using flashAfter_closed [of genre n f] flashAfter_closed [of genre 44 f]
    flashAfter_closed [of genre 43 f] pow09_43 pow09_44
  by simp

text \<open>
  C2 as stated fails: after 45 ticks the flash is not \<open>0.9 ^ 45\<close>, since the 45th tick finds
  it at or below the threshold and leaves it.
\<close>

theorem C2_counterexample: "flashAfter JAZZ 45 (onBeat 1) \<noteq> 0.9 ^ 45"
  using flashAfter_closed [of JAZZ 45 1] by (simp add: power_divide)

subsection \<open>Squeeze\<close>

lemma getHandOpenness_mean:
  "21 \<le> length lms \<Longrightarrow>
   getHandOpenness (Some lms) = max 0 (min 1 ((meanTipDistance_spec lms - 0.15) / 0.25))"
proof -
  assume len: "21 \<le> length lms"
  have total: "foldl (\<lambda>total idx. total + tipDistance (lms ! 0) (lms ! idx)) 0 tips =
      tipDistance (lms ! 0) (lms ! 8) + tipDistance (lms ! 0) (lms ! 12) +
      tipDistance (lms ! 0) (lms ! 16) + tipDistance (lms ! 0) (lms ! 20)"
    by (simp add: tips_def)
  have "\<not> length lms < 21" using len by simp
  then show ?thesis
    unfolding getHandOpenness_def meanTipDistance_spec_def Let_def total option.case
    by (simp only: if_False)
qed

lemma squeeze_spec_alt: "squeeze_spec d = 1 - max 0 (min 1 ((d - 0.15) / 0.25))"
  by (simp add: squeeze_spec_def clamp_spec_def max_def min_def)

lemma squeeze_spec_antimono: "d1 \<le> d2 \<Longrightarrow> squeeze_spec d2 \<le> squeeze_spec d1"
  unfolding squeeze_spec_alt by (simp add: max_def min_def divide_le_cancel)

lemma squeezeOf_spec:
  "21 \<le> length lms \<Longrightarrow> squeezeOf (Some lms) = squeeze_spec (meanTipDistance_spec lms)"
  by (simp add: squeezeOf_def getHandOpenness_mean squeeze_spec_alt)

lemma squeeze_spec_values:
  "squeeze_spec 0.15 = 1" "squeeze_spec 0.40 = 0" "squeeze_spec 0.275 = 0.5"
  by (simp_all add: squeeze_spec_def clamp_spec_def)


text \<open>
  C1. For a landmark list with the wrist and the four fingertips (21 points), the squeeze
  the code computes is \<open>1 - clamp((d - 0.15) / 0.25, 0, 1)\<close> of the mean distance \<open>d\<close> from
  the wrist to the four fingertips; a hand with the larger mean distance has the smaller
  or equal squeeze; the squeeze is 1 at \<open>d = 0.15\<close>, 0 at \<open>d = 0.40\<close> and 0.5 at
  \<open>d = 0.275\<close>.
\<close>

theorem C1_squeeze:
  assumes "21 \<le> length lms" and "21 \<le> length lms'"
    and "meanTipDistance_spec lms \<le> meanTipDistance_spec lms'"
  shows "squeezeOf (Some lms) = squeeze_spec (meanTipDistance_spec lms) \<and>
         squeezeOf (Some lms') \<le> squeezeOf (Some lms) \<and>
         squeeze_spec 0.15 = 1 \<and> squeeze_spec 0.40 = 0 \<and> squeeze_spec 0.275 = 0.5"
proof (intro conjI)
  show "squeezeOf (Some lms) = squeeze_spec (meanTipDistance_spec lms)"
    using assms(1) by (rule squeezeOf_spec)
  show "squeezeOf (Some lms') \<le> squeezeOf (Some lms)"
    using assms by (simp only: squeezeOf_spec squeeze_spec_antimono)
  show "squeeze_spec 0.15 = 1" by (rule squeeze_spec_values)
  show "squeeze_spec 0.40 = 0" by (rule squeeze_spec_values)
  show "squeeze_spec 0.275 = 0.5" by (rule squeeze_spec_values)
qed

theorem C1_squeeze_witness:
  "21 \<le> length (replicate 21 \<lparr>lx = 0, ly = 0\<rparr>) \<and>
   21 \<le> length (\<lparr>lx = 0, ly = 0\<rparr> # replicate 20 \<lparr>lx = 3 / 10, ly = 4 / 10\<rparr>) \<and>
   meanTipDistance_spec (replicate 21 \<lparr>lx = 0, ly = 0\<rparr>) = 0 \<and>
   meanTipDistance_spec (\<lparr>lx = 0, ly = 0\<rparr> # replicate 20 \<lparr>lx = 3 / 10, ly = 4 / 10\<rparr>) = 1 / 2 \<and>
   squeezeOf (Some (replicate 21 \<lparr>lx = 0, ly = 0\<rparr>)) = squeeze_spec 0 \<and>
   squeezeOf (Some (\<lparr>lx = 0, ly = 0\<rparr> # replicate 20 \<lparr>lx = 3 / 10, ly = 4 / 10\<rparr>))
     \<le> squeezeOf (Some (replicate 21 \<lparr>lx = 0, ly = 0\<rparr>))"
proof -
  let ?a = "replicate 21 \<lparr>lx = 0, ly = 0\<rparr>"
  let ?b = "\<lparr>lx = 0, ly = 0\<rparr> # replicate 20 \<lparr>lx = 3 / 10, ly = 4 / 10\<rparr>"
  have ma: "meanTipDistance_spec ?a = 0"
    by (simp add: meanTipDistance_spec_def tipDistance_def)
  have mb: "meanTipDistance_spec ?b = 1 / 2"
    by (simp add: meanTipDistance_spec_def tipDistance_def power2_eq_square real_sqrt_divide)
  have la: "21 \<le> length ?a" and lb: "21 \<le> length ?b" by simp_all
  have le: "meanTipDistance_spec ?a \<le> meanTipDistance_spec ?b"
    unfolding ma mb by simp
  from C1_squeeze [OF la lb le]
  have eq: "squeezeOf (Some ?a) = squeeze_spec (meanTipDistance_spec ?a)"
    and mono: "squeezeOf (Some ?b) \<le> squeezeOf (Some ?a)"
    by blast+
  from eq have eq0: "squeezeOf (Some ?a) = squeeze_spec 0"
    unfolding ma .
  from la lb ma mb eq0 mono show ?thesis
    by (intro conjI)
qed

subsection \<open>Landmark lists that are missing or short\<close>







subsection \<open>Stopping the tracker\<close>

lemma stopTracks_idem: "stopTracks (stopTracks ve) = stopTracks ve"
  by (simp add: stopTracks_def split: option.splits)

lemma stop_idem:
  "\<exists>tr'. stop tr = Inr tr' \<and> \<not> isActive tr' \<and> hands tr' = None \<and> stop tr' = Inr tr'"
  by (auto simp add: stop_def Let_def stopTracks_idem split: option.splits)

text \<open>
  C9. From every state of the tracker, and so from the state in which any outcome of
  \<^verbatim>\<open>start\<close> leaves a new tracker, \<^verbatim>\<open>stop\<close> returns without an error and leaves the tracker
  inactive with its \<^verbatim>\<open>hands\<close> released; a second \<^verbatim>\<open>stop\<close> returns without an error and
  leaves the tracker, the tracks, the camera and the console as the first left them.
\<close>

theorem C9_stop_idempotent:
  "(\<exists>tr'. stop tr = Inr tr' \<and> \<not> isActive tr' \<and> hands tr' = None \<and> stop tr' = Inr tr') \<and>
   (\<exists>tr'. stop (fst (start ve outcome (newTracker hs))) = Inr tr' \<and>
          \<not> isActive tr' \<and> hands tr' = None \<and> stop tr' = Inr tr')"
  using stop_idem [of tr] stop_idem [of "fst (start ve outcome (newTracker hs))"]
  by simp

subsection \<open>Note triggers\<close>

lemma survivors_append: "survivors (a @ b) = survivors a @ survivors b"
  by (simp add: survivors_def)

lemma triggerLoop_eq:
  "i \<le> length ts \<Longrightarrow>
   triggerLoop w h i ts out =
     (survivors (take i ts) @ drop i ts, out @ rev (map (drawRing w h) (take i ts)))"
proof (induction i arbitrary: ts out)
  case 0
  then show ?case by (simp add: survivors_def)
next
  case (Suc i)
  then have lt: "i < length ts" by simp
  let ?t = "ts ! i"
  let ?t' = "?t\<lparr>life := life ?t - 0.05\<rparr>"
  let ?out' = "out @ [drawRing w h ?t]"
  have tk: "take (Suc i) ts = take i ts @ [?t]"
    using lt by (simp add: take_Suc_conv_app_nth)
  have outs: "?out' @ rev (map (drawRing w h) (take i ts)) =
      out @ rev (map (drawRing w h) (take (Suc i) ts))"
    by (simp add: tk)
  show ?case
  proof (cases "life ?t - 0.05 \<le> 0")
    case True
    let ?ts' = "take i ts @ drop (Suc i) ts"
    have len: "i \<le> length ?ts'" using lt by simp
    have a: "take i ?ts' = take i ts" using lt by simp
    have b: "drop i ?ts' = drop (Suc i) ts" using lt by simp
    have s: "survivors (take (Suc i) ts) = survivors (take i ts)"
      using True by (simp add: tk survivors_def age_def)
    have "triggerLoop w h (Suc i) ts out = triggerLoop w h i ?ts' ?out'"
      using True by (simp add: Let_def)
    also have "\<dots> = (survivors (take i ?ts') @ drop i ?ts',
        ?out' @ rev (map (drawRing w h) (take i ?ts')))"
      by (rule Suc.IH [OF len])
    finally show ?thesis
      unfolding a b s outs .
  next
    case False
    let ?ts' = "ts[i := ?t']"
    have len: "i \<le> length ?ts'" using lt by simp
    have a: "take i ?ts' = take i ts" by simp
    have b: "drop i ?ts' = ?t' # drop (Suc i) ts"
      using lt by (metis Cons_nth_drop_Suc drop_update_cancel length_list_update lessI nth_list_update_eq)
    have s: "survivors (take (Suc i) ts) = survivors (take i ts) @ [?t']"
      using False by (simp add: tk survivors_def age_def)
    have "triggerLoop w h (Suc i) ts out = triggerLoop w h i ?ts' ?out'"
      using False by (simp add: Let_def)
    also have "\<dots> = (survivors (take i ?ts') @ drop i ?ts',
        ?out' @ rev (map (drawRing w h) (take i ?ts')))"
      by (rule Suc.IH [OF len])
    finally show ?thesis
      unfolding a b s outs by simp
  qed
qed

lemma drawNoteTriggers_eq:
  "drawNoteTriggers w h ts = (survivors ts, rev (map (drawRing w h) ts))"
  by (simp add: drawNoteTriggers_def triggerLoop_eq)

lemma arrive_Nil: "arrive [] xs = xs"
  by (simp add: arrive_def)

lemma arrive_append: "arrive ns (xs @ ys) = xs @ arrive ns ys"
  by (induction ns arbitrary: ys) (simp_all add: arrive_def onNoteTriggered_def)

lemma triggerRun_append:
  "triggerRun w h arrivals (xs @ ys) =
     triggerRun w h (quiet (length arrivals)) xs @ triggerRun w h arrivals ys"
proof (induction arrivals arbitrary: xs ys)
  case Nil
  then show ?case by (simp add: quiet_def)
next
  case (Cons ns later)
  show ?case
    using Cons.IH [of "survivors xs" "survivors (arrive ns ys)"]
    by (simp add: quiet_def arrive_append drawNoteTriggers_eq survivors_append arrive_Nil)
qed

lemma triggerRun_quiet_Nil: "triggerRun w h (quiet k) [] = []"
  by (induction k) (simp_all add: quiet_def arrive_Nil drawNoteTriggers_eq survivors_def)

lemma survivors_single:
  "survivors [\<lparr>tx = a, ty = b, life = 1 - 0.05 * real j\<rparr>] =
     (if Suc j < 20 then [\<lparr>tx = a, ty = b, life = 1 - 0.05 * real (Suc j)\<rparr>] else [])"
proof -
  have eq: "1 - 0.05 * real j - 0.05 = 1 - 0.05 * real (Suc j)"
    by (simp add: field_simps)
  have "(1 - 0.05 * real (Suc j) \<le> 0) = (real 20 \<le> real (Suc j))"
    by (simp add: field_simps)
  also have "\<dots> = (20 \<le> Suc j)"
    by (rule of_nat_le_iff)
  finally have pos: "(1 - 0.05 * real (Suc j) \<le> 0) = (\<not> Suc j < 20)"
    by (simp add: not_less)
  have "age \<lparr>tx = a, ty = b, life = 1 - 0.05 * real j\<rparr> =
      \<lparr>tx = a, ty = b, life = 1 - 0.05 * real j - 0.05\<rparr>"
    by (simp add: age_def)
  then have ag: "age \<lparr>tx = a, ty = b, life = 1 - 0.05 * real j\<rparr> =
      \<lparr>tx = a, ty = b, life = 1 - 0.05 * real (Suc j)\<rparr>"
    unfolding eq .
  show ?thesis
    by (cases "Suc j < 20")
      (simp_all only: survivors_def list.map filter.simps ag NoteTrigger.select_convs pos
        not_not if_True if_False simp_thms)
qed

lemma triggerRun_quiet_single:
  "j < 20 \<Longrightarrow>
   triggerRun w h (quiet k) [\<lparr>tx = a, ty = b, life = 1 - 0.05 * real j\<rparr>] =
     (if j + k < 20 then [\<lparr>tx = a, ty = b, life = 1 - 0.05 * real (j + k)\<rparr>] else [])"
proof (induction k arbitrary: j)
  case 0
  then show ?case by (simp add: quiet_def)
next
  case (Suc k)
  have q: "quiet (Suc k) = [] # quiet k" by (simp add: quiet_def)
  have step: "triggerRun w h (quiet (Suc k)) [\<lparr>tx = a, ty = b, life = 1 - 0.05 * real j\<rparr>] =
      triggerRun w h (quiet k) (survivors [\<lparr>tx = a, ty = b, life = 1 - 0.05 * real j\<rparr>])"
    unfolding q by (simp add: arrive_Nil drawNoteTriggers_eq)
  show ?case
  proof (cases "Suc j < 20")
    case True
    then show ?thesis
      unfolding step survivors_single using Suc.IH [of "Suc j"] by simp
  next
    case False
    then show ?thesis
      unfolding step survivors_single by (simp add: triggerRun_quiet_Nil)
  qed
qed

text \<open>
  C4 (amended). A note trigger is created with life \<open>1.0\<close> at the end of the list. Whatever
  notes arrive later, after \<open>k\<close> ticks it is still in the list, with life \<open>1.0 - 0.05 k\<close>, when
  \<open>k < 20\<close>, and it is gone when \<open>k \<ge> 20\<close>: it is removed by the 20th tick. Each tick draws
  one ring per trigger of the list; for a trigger of life \<open>life\<^sub>k\<close> the stroke alpha is
  \<open>life\<^sub>k \<times> 100\<close> and the value passed to \<^verbatim>\<open>circle\<close> is \<open>(1 - life\<^sub>k) \<times> 200\<close>, which is the
  diameter of the ring: its radius is \<open>(1 - life\<^sub>k) \<times> 100\<close>.
\<close>

theorem C4_note_trigger_lifecycle:
  "triggerRun w h arrivals (onNoteTriggered a b older) =
     triggerRun w h (quiet (length arrivals)) older @
     (if length arrivals < 20
      then [\<lparr>tx = a, ty = b, life = 1.0 - 0.05 * real (length arrivals)\<rparr>] else []) @
     triggerRun w h arrivals [] \<and>
   snd (drawNoteTriggers w h ts) = rev (map (drawRing w h) ts) \<and>
   drawRing w h \<lparr>tx = a, ty = b, life = 1.0 - 0.05 * real k\<rparr> =
     \<lparr>ring_alpha = (1.0 - 0.05 * real k) * 100, ring_cx = a * w, ring_cy = b * h,
      ring_d = (1 - (1.0 - 0.05 * real k)) * 200\<rparr> \<and>
   ring_radius (drawRing w h \<lparr>tx = a, ty = b, life = 1.0 - 0.05 * real k\<rparr>) =
     (1 - (1.0 - 0.05 * real k)) * 100"
proof (intro conjI)
  have "triggerRun w h arrivals (older @ [\<lparr>tx = a, ty = b, life = 1\<rparr>] @ []) =
      triggerRun w h (quiet (length arrivals)) older @
      triggerRun w h (quiet (length arrivals)) [\<lparr>tx = a, ty = b, life = 1 - 0.05 * real 0\<rparr>] @
      triggerRun w h arrivals []"
    unfolding triggerRun_append [of w h arrivals older]
      triggerRun_append [of w h arrivals "[\<lparr>tx = a, ty = b, life = 1\<rparr>]"] by simp
  moreover have "triggerRun w h (quiet n) [\<lparr>tx = a, ty = b, life = 1 - 0.05 * real 0\<rparr>] =
      (if n < 20 then [\<lparr>tx = a, ty = b, life = 1 - 0.05 * real n\<rparr>] else [])" for n
    using triggerRun_quiet_single [of 0 w h n a b] by simp
  ultimately show "triggerRun w h arrivals (onNoteTriggered a b older) =
     triggerRun w h (quiet (length arrivals)) older @
     (if length arrivals < 20
      then [\<lparr>tx = a, ty = b, life = 1.0 - 0.05 * real (length arrivals)\<rparr>] else []) @
     triggerRun w h arrivals []"
    unfolding onNoteTriggered_def by simp
  show "snd (drawNoteTriggers w h ts) = rev (map (drawRing w h) ts)"
    by (simp add: drawNoteTriggers_eq)
  show "drawRing w h \<lparr>tx = a, ty = b, life = 1.0 - 0.05 * real k\<rparr> =
     \<lparr>ring_alpha = (1.0 - 0.05 * real k) * 100, ring_cx = a * w, ring_cy = b * h,
      ring_d = (1 - (1.0 - 0.05 * real k)) * 200\<rparr>"
    by (simp add: drawRing_def)
  show "ring_radius (drawRing w h \<lparr>tx = a, ty = b, life = 1.0 - 0.05 * real k\<rparr>) =
     (1 - (1.0 - 0.05 * real k)) * 100"
    by (simp add: drawRing_def ring_radius_def)
qed

text \<open>
  C4 as stated fails on the radius: ten ticks after its creation the trigger has life
  \<open>0.5\<close> and its ring is drawn with radius 50, not \<open>(1 - 0.5) \<times> 200 = 100\<close>.
\<close>

theorem C4_counterexample:
  "map ring_radius
     (snd (drawNoteTriggers 800 600
        (triggerRun 800 600 (quiet 10) (onNoteTriggered (1 / 2) (1 / 2) [])))) = [50] \<and>
   (50::real) \<noteq> (1 - (1.0 - 0.05 * 10)) * 200"
proof -
  have "triggerRun 800 600 (quiet 10) [\<lparr>tx = 1 / 2, ty = 1 / 2, life = 1 - 0.05 * real 0\<rparr>] =
      [\<lparr>tx = 1 / 2, ty = 1 / 2, life = 1 - 0.05 * real (0 + 10)\<rparr>]"
    by (subst triggerRun_quiet_single) simp_all
  then show ?thesis
    by (simp add: onNoteTriggered_def drawNoteTriggers_eq drawRing_def ring_radius_def)
qed

subsection \<open>Neural grid connections\<close>

lemma connAlpha_linear: "connAlpha d = 80 - 8 / 15 * d"
  by (simp add: connAlpha_def p5_map_def maxDist_def algebra_simps)

lemma connLine_in_pair:
  "ConnLine i' j' a p q \<in> set (connectPair fc nodes i j) \<longleftrightarrow>
     (i' = i \<and> j' = j \<and> nodeDist (nodes ! i) (nodes ! j) < maxDist \<and>
      a = connAlpha (nodeDist (nodes ! i) (nodes ! j)) \<and>
      p = npos (nodes ! i) \<and> q = npos (nodes ! j))"
  by (auto simp add: connectPair_def Let_def)

text \<open>
  C7. The connection loop draws a line for the pair \<open>(i, j)\<close> exactly when \<open>i < j\<close> are
  indices of nodes whose distance \<open>d\<close> is below 150, each unordered pair being visited
  once; the line's alpha is \<open>80 - (8 / 15) d\<close>, linear and decreasing in \<open>d\<close>, 80 at \<open>d = 0\<close>
  and 0 at \<open>d = 150\<close>.
\<close>

theorem C7_neural_connections:
  "(ConnLine i j a p q \<in> set (drawConnections fc nodes) \<longleftrightarrow>
     (i < j \<and> j < length nodes \<and> nodeDist (nodes ! i) (nodes ! j) < 150 \<and>
      a = connAlpha (nodeDist (nodes ! i) (nodes ! j)) \<and>
      p = npos (nodes ! i) \<and> q = npos (nodes ! j))) \<and>
   connAlpha d = 80 - 8 / 15 * d \<and> connAlpha 0 = 80 \<and> connAlpha 150 = 0"
  by (auto simp add: drawConnections_def connLine_in_pair connAlpha_linear maxDist_def)

subsection \<open>Vortex particles\<close>

lemma p5_random_range:
  "unit_draw u \<Longrightarrow> lo < hi \<Longrightarrow> lo \<le> p5_random u lo hi \<and> p5_random u lo hi < hi"
proof -
  assume u: "unit_draw u" and lt: "lo < hi"
  have a: "0 \<le> u * (hi - lo)" using u lt by (simp add: unit_draw_def)
  have "u * (hi - lo) < 1 * (hi - lo)"
    using u lt by (intro mult_strict_right_mono) (simp_all add: unit_draw_def)
  then have b: "u * (hi - lo) < hi - lo" by simp
  have "p5_random u lo hi = u * (hi - lo) + lo"
    using lt by (simp add: p5_random_def)
  with a b show ?thesis by linarith
qed

lemma respawn_ranges:
  assumes "unit_draws u" "0 < w" "0 < h"
  shows "1000 \<le> pz (respawn w h u pt) \<and> pz (respawn w h u pt) < 2000 \<and>
         - w \<le> px (respawn w h u pt) \<and> px (respawn w h u pt) < w \<and>
         - h \<le> py (respawn w h u pt) \<and> py (respawn w h u pt) < h \<and>
         10 \<le> speed (respawn w h u pt) \<and> speed (respawn w h u pt) < 30"
  using assms
    p5_random_range [of "u_z u" 1000 2000] p5_random_range [of "u_x u" "- w" w]
    p5_random_range [of "u_y u" "- h" h] p5_random_range [of "u_speed u" 10 30]
  by (simp add: respawn_def unit_draws_def)

lemma vortexUpdate_fst:
  "fst (vortexUpdate w h bf hs u (pt, ang)) =
     (if pz pt - (speed pt + bf * 50) < 1
      then respawn w h u (pt\<lparr>pz := pz pt - (speed pt + bf * 50)\<rparr>)
      else pt\<lparr>pz := pz pt - (speed pt + bf * 50)\<rparr>)"
  by (simp add: vortexUpdate_def Let_def)

lemma respawn_draws:
  "0 < w \<Longrightarrow> 0 < h \<Longrightarrow>
   respawn w h u q =
     \<lparr>px = u_x u * (2 * w) - w, py = u_y u * (2 * h) - h, pz = u_z u * 1000 + 1000,
      speed = u_speed u * 20 + 10, oX = u_oX u * 2 - 1, oY = u_oY u * 2 - 1\<rparr>"
  by (simp add: respawn_def p5_random_def algebra_simps)

lemma respawn_fresh:
  assumes "0 < w" and "0 < h"
  shows "(respawn w h u q = respawn w h u' q') = (u = u')"
proof
  assume "respawn w h u q = respawn w h u' q'"
  then have "u_x u * (2 * w) - w = u_x u' * (2 * w) - w"
    and "u_y u * (2 * h) - h = u_y u' * (2 * h) - h"
    and "u_z u * 1000 + 1000 = u_z u' * 1000 + 1000"
    and "u_speed u * 20 + 10 = u_speed u' * 20 + 10"
    and "u_oX u * 2 - 1 = u_oX u' * 2 - 1"
    and "u_oY u * 2 - 1 = u_oY u' * 2 - 1"
    unfolding respawn_draws [OF assms] by simp_all
  then have "u_x u = u_x u'" "u_y u = u_y u'" "u_z u = u_z u'"
    "u_speed u = u_speed u'" "u_oX u = u_oX u'" "u_oY u = u_oY u'"
    using assms by simp_all
  then show "u = u'" by simp
next
  assume "u = u'"
  then show "respawn w h u q = respawn w h u' q'"
    unfolding respawn_draws [OF assms] by simp
qed

lemma respawn_o_ranges:
  assumes "unit_draws u"
  shows "- 1 \<le> oX (respawn w h u pt) \<and> oX (respawn w h u pt) < 1 \<and>
         - 1 \<le> oY (respawn w h u pt) \<and> oY (respawn w h u pt) < 1"
  using assms p5_random_range [of "u_oX u" "- 1" 1] p5_random_range [of "u_oY u" "- 1" 1]
  by (simp add: respawn_def unit_draws_def)

text \<open>
  C6. A tick lowers the depth of a vortex particle by \<open>speed + beatFlash \<times> 50\<close>; when the
  lowered depth is below 1 the particle is respawned in that tick, and when it is exactly
  1 the next tick respawns it (the speed is positive and the flash is not negative). A
  respawn replaces every field of the particle by a value computed from its own draw, and
  keeps nothing of the old particle: the depth is \<open>1000 + 1000 u\<^sub>z\<close> in \<open>[1000, 2000)\<close>, the
  planar offset \<open>(2 u\<^sub>x - 1) width\<close>, \<open>(2 u\<^sub>y - 1) height\<close> in
  \<open>[-width, width) \<times> [-height, height)\<close>, the speed \<open>10 + 20 u\<close> in \<open>[10, 30)\<close>, and \<open>oX\<close>,
  \<open>oY\<close> are \<open>2 u - 1\<close> in \<open>[-1, 1)\<close>; two respawns give the same particle exactly when their
  draws are the same.
\<close>

theorem C6_vortex_update:
  assumes "unit_draws u" and "0 < speed pt" and "0 \<le> bf" and "0 \<le> bf'"
    and "0 < w" and "0 < h"
  shows
    "fst (vortexUpdate w h bf hs u (pt, ang)) =
       (if pz pt - (speed pt + bf * 50) < 1
        then respawn w h u (pt\<lparr>pz := pz pt - (speed pt + bf * 50)\<rparr>)
        else pt\<lparr>pz := pz pt - (speed pt + bf * 50)\<rparr>) \<and>
     (pz pt - (speed pt + bf * 50) = 1 \<longrightarrow>
        fst (vortexUpdate w h bf' hs' u' (fst (vortexUpdate w h bf hs u (pt, ang)), ang')) =
          respawn w h u' (pt\<lparr>pz := 1 - (speed pt + bf' * 50)\<rparr>)) \<and>
     1000 \<le> pz (respawn w h u q) \<and> pz (respawn w h u q) < 2000 \<and>
     - w \<le> px (respawn w h u q) \<and> px (respawn w h u q) < w \<and>
     - h \<le> py (respawn w h u q) \<and> py (respawn w h u q) < h \<and>
     10 \<le> speed (respawn w h u q) \<and> speed (respawn w h u q) < 30 \<and>
     - 1 \<le> oX (respawn w h u q) \<and> oX (respawn w h u q) < 1 \<and>
     - 1 \<le> oY (respawn w h u q) \<and> oY (respawn w h u q) < 1 \<and>
     respawn w h v q =
       \<lparr>px = u_x v * (2 * w) - w, py = u_y v * (2 * h) - h, pz = u_z v * 1000 + 1000,
        speed = u_speed v * 20 + 10, oX = u_oX v * 2 - 1, oY = u_oY v * 2 - 1\<rparr> \<and>
     (respawn w h v q = respawn w h v' q') = (v = v')"
proof -
  have tick: "fst (vortexUpdate w h bf hs u (pt, ang)) =
       (if pz pt - (speed pt + bf * 50) < 1
        then respawn w h u (pt\<lparr>pz := pz pt - (speed pt + bf * 50)\<rparr>)
        else pt\<lparr>pz := pz pt - (speed pt + bf * 50)\<rparr>)"
    by (rule vortexUpdate_fst)
  have nxt: "pz pt - (speed pt + bf * 50) = 1 \<longrightarrow>
        fst (vortexUpdate w h bf' hs' u' (fst (vortexUpdate w h bf hs u (pt, ang)), ang')) =
          respawn w h u' (pt\<lparr>pz := 1 - (speed pt + bf' * 50)\<rparr>)"
  proof
    assume one: "pz pt - (speed pt + bf * 50) = 1"
    have first: "fst (vortexUpdate w h bf hs u (pt, ang)) = pt\<lparr>pz := 1\<rparr>"
      unfolding vortexUpdate_fst one by simp
    have "0 < speed pt + bf' * 50" using assms(2,4) by (simp add: add_pos_nonneg)
    then have "fst (vortexUpdate w h bf' hs' u' (pt\<lparr>pz := 1\<rparr>, ang')) =
          respawn w h u' (pt\<lparr>pz := 1 - (speed pt + bf' * 50)\<rparr>)"
      by (simp add: vortexUpdate_fst)
    then show "fst (vortexUpdate w h bf' hs' u' (fst (vortexUpdate w h bf hs u (pt, ang)), ang')) =
          respawn w h u' (pt\<lparr>pz := 1 - (speed pt + bf' * 50)\<rparr>)"
      by (simp only: first)
  qed
  note ranges = respawn_ranges [OF assms(1,5,6), of q]
  note oranges = respawn_o_ranges [OF assms(1), of w h q]
  note draws = respawn_draws [OF assms(5,6), of v q]
  note fresh = respawn_fresh [OF assms(5,6), of v q v' q']
  from tick nxt ranges oranges draws fresh show ?thesis
    by blast
qed

theorem C6_vortex_update_witness:
  "unit_draws \<lparr>u_x = 1 / 4, u_y = 3 / 4, u_z = 1 / 2, u_oX = 1 / 8, u_oY = 7 / 8, u_speed = 1 / 10\<rparr> \<and>
   0 < speed \<lparr>px = 0, py = 0, pz = 21, speed = 20, oX = 0, oY = 0\<rparr> \<and>
   (0::real) < 800 \<and> (0::real) < 600 \<and>
   fst (vortexUpdate 800 600 0 noHands
        \<lparr>u_x = 1 / 4, u_y = 3 / 4, u_z = 1 / 2, u_oX = 1 / 8, u_oY = 7 / 8, u_speed = 1 / 10\<rparr>
        (\<lparr>px = 0, py = 0, pz = 21, speed = 20, oX = 0, oY = 0\<rparr>, 0)) =
     \<lparr>px = 0, py = 0, pz = 1, speed = 20, oX = 0, oY = 0\<rparr> \<and>
   fst (vortexUpdate 800 600 0 noHands
        \<lparr>u_x = 1 / 4, u_y = 3 / 4, u_z = 1 / 2, u_oX = 1 / 8, u_oY = 7 / 8, u_speed = 1 / 10\<rparr>
        (fst (vortexUpdate 800 600 0 noHands
           \<lparr>u_x = 1 / 4, u_y = 3 / 4, u_z = 1 / 2, u_oX = 1 / 8, u_oY = 7 / 8, u_speed = 1 / 10\<rparr>
           (\<lparr>px = 0, py = 0, pz = 21, speed = 20, oX = 0, oY = 0\<rparr>, 0)), 0)) =
     \<lparr>px = - 400, py = 300, pz = 1500, speed = 12, oX = - (3 / 4), oY = 3 / 4\<rparr>"
proof -
  let ?u = "\<lparr>u_x = 1 / 4, u_y = 3 / 4, u_z = 1 / 2, u_oX = 1 / 8, u_oY = 7 / 8, u_speed = 1 / 10\<rparr>"
  let ?pt = "\<lparr>px = 0, py = 0, pz = 21, speed = 20, oX = 0, oY = 0\<rparr>"
  have u: "unit_draws ?u" by (simp add: unit_draws_def unit_draw_def)
  have sp: "0 < speed ?pt" by simp
  have one: "pz ?pt - (speed ?pt + 0 * 50) = 1" by simp
  have z: "(0::real) \<le> 0" and w: "(0::real) < 800" and h: "(0::real) < 600" by simp_all
  note th = C6_vortex_update [OF u sp z z w h]
  from th [where hs = noHands and ang = 0, THEN conjunct1]
  have a': "fst (vortexUpdate 800 600 0 noHands ?u (?pt, 0)) =
      \<lparr>px = 0, py = 0, pz = 1, speed = 20, oX = 0, oY = 0\<rparr>"
    by simp
  have spawn: "respawn 800 600 ?u (?pt\<lparr>pz := 1 - (speed ?pt + 0 * 50)\<rparr>) =
      \<lparr>px = - 400, py = 300, pz = 1500, speed = 12, oX = - (3 / 4), oY = 3 / 4\<rparr>"
    by (simp add: respawn_draws)
  from th [where hs = noHands and hs' = noHands and ang = 0 and ang' = 0 and u' = ?u,
      THEN conjunct2, THEN conjunct1, rule_format, OF one]
  have b': "fst (vortexUpdate 800 600 0 noHands ?u
      (fst (vortexUpdate 800 600 0 noHands ?u (?pt, 0)), 0)) =
      \<lparr>px = - 400, py = 300, pz = 1500, speed = 12, oX = - (3 / 4), oY = 3 / 4\<rparr>"
    unfolding spawn .
  from u sp w h a' b' show ?thesis by (intro conjI)
qed

subsection \<open>Liquid particles\<close>

lemma interact_fields:
  "pos (interact w h hand hv td pt) = pos pt"
  "prevPos (interact w h hand hv td pt) = prevPos pt"
  "vel (interact w h hand hv td pt) = vel pt"
  "maxSpeed (interact w h hand hv td pt) = maxSpeed pt"
  by (simp_all add: interact_def Let_def split: option.splits)

lemma integrate_fields:
  "prevPos (integrate w h d hs hv pt) = pos pt"
  "pos (integrate w h d hs hv pt) = vadd (pos pt) (vel (integrate w h d hs hv pt))"
  "maxSpeed (integrate w h d hs hv pt) = maxSpeed pt"
  by (simp_all add: integrate_def Let_def interact_fields)

lemma integrate_vel:
  "\<exists>a. vel (integrate w h d hs hv pt) = vmult (limit a (maxSpeed pt)) 0.94"
  by (simp add: integrate_def Let_def interact_fields) blast

lemma wrapAround_fields:
  "vel (wrapAround w h q) = vel q"
  "maxSpeed (wrapAround w h q) = maxSpeed q"
  by (simp_all add: wrapAround_def Let_def)

lemma wrapAround_x:
  "0 \<le> w \<Longrightarrow> vx (pos (wrapAround w h q)) =
     (if vx (pos q) > w then 0 else if vx (pos q) < 0 then w else vx (pos q))"
  "0 \<le> w \<Longrightarrow> vx (prevPos (wrapAround w h q)) =
     (if vx (pos q) > w then 0 else if vx (pos q) < 0 then w else vx (prevPos q))"
  by (simp_all add: wrapAround_def Let_def)

lemma wrapAround_y:
  "0 \<le> h \<Longrightarrow> vy (pos (wrapAround w h q)) =
     (if vy (pos q) > h then 0 else if vy (pos q) < 0 then h else vy (pos q))"
  "0 \<le> h \<Longrightarrow> vy (prevPos (wrapAround w h q)) =
     (if vy (pos q) > h then 0 else if vy (pos q) < 0 then h else vy (prevPos q))"
  by (simp_all add: wrapAround_def Let_def)

lemma streak_bound:
  assumes "0 \<le> w" "0 \<le> h"
  shows "\<bar>vx (streak (liquidUpdate w h d hs hv pt))\<bar> \<le> \<bar>vx (vel (liquidUpdate w h d hs hv pt))\<bar>"
    and "\<bar>vy (streak (liquidUpdate w h d hs hv pt))\<bar> \<le> \<bar>vy (vel (liquidUpdate w h d hs hv pt))\<bar>"
  using assms
  by (simp_all add: streak_def liquidUpdate_def wrapAround_x wrapAround_y wrapAround_fields
      integrate_fields vsub_def vadd_def)

lemma withinClosed_update:
  "0 \<le> w \<Longrightarrow> 0 \<le> h \<Longrightarrow> withinClosed w h (liquidUpdate w h d hs hv pt)"
  by (simp add: withinClosed_def liquidUpdate_def wrapAround_x wrapAround_y)

lemma withinClosed_run:
  "0 \<le> w \<Longrightarrow> 0 \<le> h \<Longrightarrow> withinClosed w h pt \<Longrightarrow> withinClosed w h (liquidRun w h ds pt)"
  by (induction ds arbitrary: pt) (simp_all add: withinClosed_update)

lemma limit_magSq: "0 \<le> mx \<Longrightarrow> magSq (limit a mx) \<le> mx * mx"
proof (cases "magSq a > mx * mx")
  case False
  then show ?thesis by (simp add: limit_def Let_def)
next
  case True
  assume mx: "0 \<le> mx"
  have "0 \<le> mx * mx" by simp
  with True have m: "0 < magSq a" by linarith
  have s: "sqrt (magSq a) * sqrt (magSq a) = magSq a" using m by simp
  have e1: "magSq (vmult (vmult a c) mx) = magSq a * ((c * mx) * (c * mx))" for c
    by (simp add: magSq_def vmult_def algebra_simps)
  have "(1 / sqrt (magSq a) * mx) * (1 / sqrt (magSq a) * mx) =
      mx * mx / (sqrt (magSq a) * sqrt (magSq a))"
    by simp
  then have e2: "(1 / sqrt (magSq a) * mx) * (1 / sqrt (magSq a) * mx) = mx * mx / magSq a"
    unfolding s .
  have "magSq (vmult (vmult a (1 / sqrt (magSq a))) mx) = magSq a * (mx * mx / magSq a)"
    unfolding e1 e2 ..
  also have "\<dots> = mx * mx" using m by simp
  finally have "magSq (vmult (vmult a (1 / sqrt (magSq a))) mx) = mx * mx" .
  then show ?thesis using True by (simp add: limit_def Let_def)
qed

lemma update_speed:
  assumes "0 \<le> maxSpeed pt"
  shows "magSq (vel (liquidUpdate w h d hs hv pt)) \<le> (0.94 * maxSpeed pt)\<^sup>2"
proof -
  obtain a where a: "vel (integrate w h d hs hv pt) = vmult (limit a (maxSpeed pt)) 0.94"
    using integrate_vel by blast
  have "magSq (vmult (limit a (maxSpeed pt)) 0.94) = 0.94\<^sup>2 * magSq (limit a (maxSpeed pt))"
    by (simp add: magSq_def vmult_def power2_eq_square algebra_simps)
  also have "\<dots> \<le> 0.94\<^sup>2 * (maxSpeed pt * maxSpeed pt)"
    using limit_magSq [OF assms, of a] by (intro mult_left_mono) simp_all
  finally show ?thesis
    by (simp add: liquidUpdate_def wrapAround_fields a power2_eq_square algebra_simps)
qed

lemma run_maxSpeed: "maxSpeed (liquidRun w h ds pt) = maxSpeed pt"
  by (induction ds arbitrary: pt)
    (simp_all add: liquidUpdate_def wrapAround_fields integrate_fields)

lemma run_speed:
  "0 \<le> maxSpeed pt \<Longrightarrow> magSq (vel (liquidRun w h (d # ds) pt)) \<le> (0.94 * maxSpeed pt)\<^sup>2"
proof (induction ds arbitrary: d pt)
  case Nil
  then show ?case
    using update_speed [of pt w h d noHands "(createVector 0 0, createVector 0 0)"] by simp
next
  case (Cons d' ds)
  let ?pt' = "liquidUpdate w h d noHands (createVector 0 0, createVector 0 0) pt"
  have ms: "maxSpeed ?pt' = maxSpeed pt"
    by (simp add: liquidUpdate_def wrapAround_fields integrate_fields)
  have "magSq (vel (liquidRun w h (d' # ds) ?pt')) \<le> (0.94 * maxSpeed ?pt')\<^sup>2"
    using Cons.prems by (intro Cons.IH) (simp add: ms)
  then show ?case by (simp add: ms)
qed

lemma integrate_example:
  "pos (integrate 800 600 \<lparr>noise = 0, turbLeft = \<lparr>vx = 1, vy = 0\<rparr>, turbRight = \<lparr>vx = 1, vy = 0\<rparr>\<rparr>
      noHands (createVector 0 0, createVector 0 0)
      \<lparr>pos = \<lparr>vx = 799, vy = 300\<rparr>, vel = \<lparr>vx = 10, vy = 0\<rparr>, acc = \<lparr>vx = 0, vy = 0\<rparr>,
       prevPos = \<lparr>vx = 790, vy = 300\<rparr>, maxSpeed = 15\<rparr>) = \<lparr>vx = 80887 / 100, vy = 300\<rparr>"
  by (simp add: integrate_def Let_def interact_def noHands_def fromAngle_def TWO_PI_def
      vadd_def vmult_def limit_def magSq_def)

lemma integrate_example2:
  "pos (integrate 800 600 \<lparr>noise = 1 / 8, turbLeft = \<lparr>vx = 1, vy = 0\<rparr>, turbRight = \<lparr>vx = 1, vy = 0\<rparr>\<rparr>
      noHands (createVector 0 0, createVector 0 0)
      \<lparr>pos = \<lparr>vx = 1 / 10, vy = 50\<rparr>, vel = \<lparr>vx = 0, vy = 0\<rparr>, acc = \<lparr>vx = 0, vy = 0\<rparr>,
       prevPos = \<lparr>vx = 1 / 10, vy = 50\<rparr>, maxSpeed = 6\<rparr>) = \<lparr>vx = - (37 / 100), vy = 50\<rparr>"
  by (simp add: integrate_def Let_def interact_def noHands_def fromAngle_def TWO_PI_def
      vadd_def vmult_def limit_def magSq_def)

text \<open>
  C5. After the integration step of an update, a particle whose \<open>x\<close> exceeds the surface
  width has its \<open>x\<close> and the \<open>x\<close> of its previous position both set to 0; one whose \<open>x\<close> is
  negative has both set to the width; the same holds for \<open>y\<close> and the height. Otherwise
  the previous position is the position before the update. The segment drawn from the
  previous position to the position is therefore never longer, in either coordinate,
  than the velocity of that tick: no streak crosses the surface.
\<close>

theorem C5_liquid_wrap:
  assumes "0 \<le> w" and "0 \<le> h"
  shows
    "vx (pos (liquidUpdate w h d hs hv pt)) =
       (if vx (pos (integrate w h d hs hv pt)) > w then 0
        else if vx (pos (integrate w h d hs hv pt)) < 0 then w
        else vx (pos (integrate w h d hs hv pt))) \<and>
     vx (prevPos (liquidUpdate w h d hs hv pt)) =
       (if vx (pos (integrate w h d hs hv pt)) > w then 0
        else if vx (pos (integrate w h d hs hv pt)) < 0 then w
        else vx (pos pt)) \<and>
     vy (pos (liquidUpdate w h d hs hv pt)) =
       (if vy (pos (integrate w h d hs hv pt)) > h then 0
        else if vy (pos (integrate w h d hs hv pt)) < 0 then h
        else vy (pos (integrate w h d hs hv pt))) \<and>
     vy (prevPos (liquidUpdate w h d hs hv pt)) =
       (if vy (pos (integrate w h d hs hv pt)) > h then 0
        else if vy (pos (integrate w h d hs hv pt)) < 0 then h
        else vy (pos pt)) \<and>
     \<bar>vx (streak (liquidUpdate w h d hs hv pt))\<bar> \<le> \<bar>vx (vel (liquidUpdate w h d hs hv pt))\<bar> \<and>
     \<bar>vy (streak (liquidUpdate w h d hs hv pt))\<bar> \<le> \<bar>vy (vel (liquidUpdate w h d hs hv pt))\<bar>"
  using assms streak_bound [OF assms, of d hs hv pt]
  by (simp add: liquidUpdate_def wrapAround_x wrapAround_y integrate_fields(1))

theorem C5_liquid_wrap_witness:
  "(0::real) \<le> 800 \<and> (0::real) \<le> 600 \<and>
   vx (pos (integrate 800 600 \<lparr>noise = 0, turbLeft = \<lparr>vx = 1, vy = 0\<rparr>, turbRight = \<lparr>vx = 1, vy = 0\<rparr>\<rparr>
      noHands (createVector 0 0, createVector 0 0)
      \<lparr>pos = \<lparr>vx = 799, vy = 300\<rparr>, vel = \<lparr>vx = 10, vy = 0\<rparr>, acc = \<lparr>vx = 0, vy = 0\<rparr>,
       prevPos = \<lparr>vx = 790, vy = 300\<rparr>, maxSpeed = 15\<rparr>)) > 800 \<and>
   vx (pos (liquidUpdate 800 600 \<lparr>noise = 0, turbLeft = \<lparr>vx = 1, vy = 0\<rparr>, turbRight = \<lparr>vx = 1, vy = 0\<rparr>\<rparr>
      noHands (createVector 0 0, createVector 0 0)
      \<lparr>pos = \<lparr>vx = 799, vy = 300\<rparr>, vel = \<lparr>vx = 10, vy = 0\<rparr>, acc = \<lparr>vx = 0, vy = 0\<rparr>,
       prevPos = \<lparr>vx = 790, vy = 300\<rparr>, maxSpeed = 15\<rparr>)) = 0 \<and>
   vx (prevPos (liquidUpdate 800 600 \<lparr>noise = 0, turbLeft = \<lparr>vx = 1, vy = 0\<rparr>, turbRight = \<lparr>vx = 1, vy = 0\<rparr>\<rparr>
      noHands (createVector 0 0, createVector 0 0)
      \<lparr>pos = \<lparr>vx = 799, vy = 300\<rparr>, vel = \<lparr>vx = 10, vy = 0\<rparr>, acc = \<lparr>vx = 0, vy = 0\<rparr>,
       prevPos = \<lparr>vx = 790, vy = 300\<rparr>, maxSpeed = 15\<rparr>)) = 0"
proof -
  let ?d = "\<lparr>noise = 0, turbLeft = \<lparr>vx = 1, vy = 0\<rparr>, turbRight = \<lparr>vx = 1, vy = 0\<rparr>\<rparr>"
  let ?pt = "\<lparr>pos = \<lparr>vx = 799, vy = 300\<rparr>, vel = \<lparr>vx = 10, vy = 0\<rparr>, acc = \<lparr>vx = 0, vy = 0\<rparr>,
       prevPos = \<lparr>vx = 790, vy = 300\<rparr>, maxSpeed = 15\<rparr>"
  let ?hv = "(createVector 0 0, createVector 0 0)"
  have w: "(0::real) \<le> 800" and h: "(0::real) \<le> 600" by simp_all
  have q: "vx (pos (integrate 800 600 ?d noHands ?hv ?pt)) = 80887 / 100"
    by (simp add: integrate_example)
  then have over: "vx (pos (integrate 800 600 ?d noHands ?hv ?pt)) > 800" by simp
  note th = C5_liquid_wrap [OF w h, of ?d noHands ?hv ?pt]
  from th [THEN conjunct1]
  have a: "vx (pos (liquidUpdate 800 600 ?d noHands ?hv ?pt)) = 0"
    unfolding q by simp
  from th [THEN conjunct2, THEN conjunct1]
  have b: "vx (prevPos (liquidUpdate 800 600 ?d noHands ?hv ?pt)) = 0"
    unfolding q by simp
  from w h over a b show ?thesis by (intro conjI)
qed

text \<open>
  C8 (amended). With no hand detected, a particle that starts on the surface stays, after
  any number of ticks, within the closed rectangle \<open>[0, width] \<times> [0, height]\<close>: a particle
  that leaves through the left or the top edge is placed exactly on the right or the bottom
  edge. After every tick its speed is at most \<open>0.94\<close> times its maximum speed. (The
  finiteness of IEEE doubles is outside a model over the reals.)
\<close>

theorem C8_liquid_stays_on_surface:
  assumes "0 \<le> w" and "0 \<le> h" and "withinClosed w h pt" and "0 \<le> maxSpeed pt"
  shows "withinClosed w h (liquidRun w h ds pt) \<and>
         magSq (vel (liquidRun w h (d # ds) pt)) \<le> (0.94 * maxSpeed pt)\<^sup>2"
proof
  show "withinClosed w h (liquidRun w h ds pt)"
    using assms(1-3) by (rule withinClosed_run)
  show "magSq (vel (liquidRun w h (d # ds) pt)) \<le> (0.94 * maxSpeed pt)\<^sup>2"
    using assms(4) by (rule run_speed)
qed

theorem C8_liquid_stays_on_surface_witness:
  "(0::real) \<le> 800 \<and> (0::real) \<le> 600 \<and>
   withinClosed 800 600
     \<lparr>pos = \<lparr>vx = 1 / 10, vy = 50\<rparr>, vel = \<lparr>vx = 0, vy = 0\<rparr>, acc = \<lparr>vx = 0, vy = 0\<rparr>,
       prevPos = \<lparr>vx = 1 / 10, vy = 50\<rparr>, maxSpeed = 6\<rparr> \<and>
   withinClosed 800 600 (liquidRun 800 600
     [\<lparr>noise = 1 / 8, turbLeft = \<lparr>vx = 1, vy = 0\<rparr>, turbRight = \<lparr>vx = 1, vy = 0\<rparr>\<rparr>]
     \<lparr>pos = \<lparr>vx = 1 / 10, vy = 50\<rparr>, vel = \<lparr>vx = 0, vy = 0\<rparr>, acc = \<lparr>vx = 0, vy = 0\<rparr>,
       prevPos = \<lparr>vx = 1 / 10, vy = 50\<rparr>, maxSpeed = 6\<rparr>) \<and>
   magSq (vel (liquidRun 800 600
     [\<lparr>noise = 1 / 8, turbLeft = \<lparr>vx = 1, vy = 0\<rparr>, turbRight = \<lparr>vx = 1, vy = 0\<rparr>\<rparr>]
     \<lparr>pos = \<lparr>vx = 1 / 10, vy = 50\<rparr>, vel = \<lparr>vx = 0, vy = 0\<rparr>, acc = \<lparr>vx = 0, vy = 0\<rparr>,
       prevPos = \<lparr>vx = 1 / 10, vy = 50\<rparr>, maxSpeed = 6\<rparr>)) \<le> (0.94 * 6)\<^sup>2"
proof -
  let ?d = "\<lparr>noise = 1 / 8, turbLeft = \<lparr>vx = 1, vy = 0\<rparr>, turbRight = \<lparr>vx = 1, vy = 0\<rparr>\<rparr>"
  let ?pt = "\<lparr>pos = \<lparr>vx = 1 / 10, vy = 50\<rparr>, vel = \<lparr>vx = 0, vy = 0\<rparr>, acc = \<lparr>vx = 0, vy = 0\<rparr>,
       prevPos = \<lparr>vx = 1 / 10, vy = 50\<rparr>, maxSpeed = 6\<rparr>"
  have w: "(0::real) \<le> 800" and h: "(0::real) \<le> 600" by simp_all
  have inside: "withinClosed 800 600 ?pt" by (simp add: withinClosed_def)
  have ms: "0 \<le> maxSpeed ?pt" by simp
  note th = C8_liquid_stays_on_surface [OF w h inside ms]
  have a: "withinClosed 800 600 (liquidRun 800 600 [?d] ?pt)"
    by (rule th [THEN conjunct1])
  have "magSq (vel (liquidRun 800 600 [?d] ?pt)) \<le> (0.94 * maxSpeed ?pt)\<^sup>2"
    by (rule th [where d = ?d and ds = "[]", THEN conjunct2])
  then have b: "magSq (vel (liquidRun 800 600 [?d] ?pt)) \<le> (0.94 * 6)\<^sup>2"
    by (simp only: LiquidParticle.select_convs)
  from w h inside a b show ?thesis by (intro conjI)
qed

text \<open>
  C8 as stated fails: a particle at \<open>x = 0.1\<close>, at rest, that the flow field pushes to the left
  (noise value \<open>1/8\<close>, angle \<open>\<pi>\<close>, force \<open>(-0.5, 0)\<close>) moves to \<open>x = -0.37\<close>, leaves through the
  left edge in one tick and is placed at \<open>x = width\<close>, which is outside \<open>[0, width)\<close>.
\<close>

theorem C8_counterexample:
  "withinHalfOpen 800 600
     \<lparr>pos = \<lparr>vx = 1 / 10, vy = 50\<rparr>, vel = \<lparr>vx = 0, vy = 0\<rparr>, acc = \<lparr>vx = 0, vy = 0\<rparr>,
       prevPos = \<lparr>vx = 1 / 10, vy = 50\<rparr>, maxSpeed = 6\<rparr> \<and>
   \<not> withinHalfOpen 800 600 (liquidRun 800 600
     [\<lparr>noise = 1 / 8, turbLeft = \<lparr>vx = 1, vy = 0\<rparr>, turbRight = \<lparr>vx = 1, vy = 0\<rparr>\<rparr>]
     \<lparr>pos = \<lparr>vx = 1 / 10, vy = 50\<rparr>, vel = \<lparr>vx = 0, vy = 0\<rparr>, acc = \<lparr>vx = 0, vy = 0\<rparr>,
       prevPos = \<lparr>vx = 1 / 10, vy = 50\<rparr>, maxSpeed = 6\<rparr>)"
proof -
  let ?d = "\<lparr>noise = 1 / 8, turbLeft = \<lparr>vx = 1, vy = 0\<rparr>, turbRight = \<lparr>vx = 1, vy = 0\<rparr>\<rparr>"
  let ?pt = "\<lparr>pos = \<lparr>vx = 1 / 10, vy = 50\<rparr>, vel = \<lparr>vx = 0, vy = 0\<rparr>, acc = \<lparr>vx = 0, vy = 0\<rparr>,
       prevPos = \<lparr>vx = 1 / 10, vy = 50\<rparr>, maxSpeed = 6\<rparr>"
  have "vx (pos (liquidRun 800 600 [?d] ?pt)) = 800"
    by (simp add: liquidUpdate_def wrapAround_x integrate_example2)
  then have "\<not> withinHalfOpen 800 600 (liquidRun 800 600 [?d] ?pt)"
    unfolding withinHalfOpen_def by simp
  moreover have "withinHalfOpen 800 600 ?pt"
    by (simp add: withinHalfOpen_def)
  ultimately show ?thesis by (intro conjI)
qed

subsection \<open>Drag force\<close>

lemma sqrt_100: "sqrt 100 = 10"
  by (rule real_sqrt_unique) simp_all

lemma sqrt_122500: "sqrt 122500 = 350"
  by (rule real_sqrt_unique) simp_all

lemma dragScale_far: "300 < d \<Longrightarrow> 0 < velMag \<Longrightarrow> dragScale d velMag < 0"
  by (simp add: dragScale_def p5_map_def mult_neg_pos)

lemma dragScale_near: "d \<le> 300 \<Longrightarrow> 0 \<le> velMag \<Longrightarrow> 0 \<le> dragScale d velMag"
  by (simp add: dragScale_def p5_map_def)

text \<open>
  C3 on the code. The scale of the drag force is \<^verbatim>\<open>p.map(d, 0, 300, 4, 0)\<close>, not clamped,
  times \<open>0.05\<close> times the hand's speed, while the interaction radius is 400. Up to distance
  300 the force is a non-negative multiple of the hand's direction (\<open>dragScale_near\<close>);
  between 300 and 400 the scale is negative (\<open>dragScale_far\<close>) and the force points against
  the hand's velocity. At distance 350 from a hand moving with velocity \<open>(10, 0)\<close> the drag
  force is \<open>(-1/3, 0)\<close>, and \<^verbatim>\<open>interact\<close> adds it to the acceleration together with the
  attraction \<open>(3/16, 0)\<close> and the turbulence.
\<close>

theorem C3_drag_reversed_beyond_300:
  "dragForce 350 \<lparr>vx = 10, vy = 0\<rparr> = vmult (normalize \<lparr>vx = 10, vy = 0\<rparr>) (- (1 / 3)) \<and>
   dragForce 350 \<lparr>vx = 10, vy = 0\<rparr> = \<lparr>vx = - (1 / 3), vy = 0\<rparr> \<and>
   acc (interact 1000 1000 (Some \<lparr>hx = 35 / 100, hy = 0\<rparr>) \<lparr>vx = 10, vy = 0\<rparr> \<lparr>vx = 0, vy = 1\<rparr>
      \<lparr>pos = \<lparr>vx = 0, vy = 0\<rparr>, vel = \<lparr>vx = 0, vy = 0\<rparr>, acc = \<lparr>vx = 0, vy = 0\<rparr>,
       prevPos = \<lparr>vx = 0, vy = 0\<rparr>, maxSpeed = 10\<rparr>)
     = vadd (vadd \<lparr>vx = 3 / 16, vy = 0\<rparr> \<lparr>vx = - (1 / 3), vy = 0\<rparr>) \<lparr>vx = 0, vy = 3 / 2\<rparr>"
  by (simp add: dragForce_def dragScale_def normalize_def mag_def magSq_def vmult_def vadd_def
      vsub_def createVector_def p5_map_def interact_def Let_def sqrt_100 sqrt_122500)

end
